theory Spec2Isabelle
  imports Main "HOL-Library.Sublist"
begin

section \<open>Data model of \<^verbatim>\<open>app/src/lib/git/diff.ts\<close>\<close>

text \<open>
  JavaScript strings are modelled as \<^typ>\<open>string\<close>: a sequence of code units. The
  converter only inspects the code units \<^verbatim>\<open>\n\<close> (\<^term>\<open>CHR 0x0A\<close>),
  \<^verbatim>\<open>\r\<close> (\<^term>\<open>CHR 0x0D\<close>) and the ASCII word \<^verbatim>\<open>Subproject\<close>.
\<close>

datatype FileStatus = New | Modified | Deleted | Renamed | Conflicted

record Repository =
  path :: string

text \<open>
  \<^verbatim>\<open>FileChange\<close> and its subclass \<^verbatim>\<open>WorkingDirectoryFileChange\<close>: the
  \<^verbatim>\<open>instanceof\<close> test of \<^verbatim>\<open>getImageDiff\<close> is the field
  \<open>isWorkingDirectoryFileChange\<close>; an \<^verbatim>\<open>oldPath\<close> that is \<^verbatim>\<open>undefined\<close>
  is \<^term>\<open>None\<close>.
\<close>

record FileChange =
  path :: string
  status :: FileStatus
  oldPath :: "string option"
  isWorkingDirectoryFileChange :: bool

record DiffLine =
  "text" :: string

record DiffHunk =
  lines :: "DiffLine list"

text \<open>
  The two index lookups of a \<^verbatim>\<open>RawDiff\<close> are never called by the converter, only
  handed on: their types stay parameters.
\<close>

record ('f, 'g) RawDiff =
  isBinary :: bool
  hunks :: "DiffHunk list"
  diffLineForIndex :: 'f
  diffHunkForIndex :: 'g

record Image =
  contents :: string
  mediaType :: string

text \<open>
  \<^verbatim>\<open>IDiff\<close>, the tagged union on \<^verbatim>\<open>kind\<close>: \<^verbatim>\<open>'text'\<close>,
  \<^verbatim>\<open>'binary'\<close>, \<^verbatim>\<open>'image'\<close> (fields \<^verbatim>\<open>previous\<close>, then
  \<^verbatim>\<open>current\<close>; \<^verbatim>\<open>undefined\<close> is \<^term>\<open>None\<close>) and \<^verbatim>\<open>'submodule'\<close>.
\<close>

datatype ('f, 'g) IDiff =
    ITextDiff string "DiffHunk list" 'f 'g
  | IBinaryDiff
  | IImageDiff "Image option" "Image option"
  | ISubmoduleDiff

section \<open>Effects: reads, rejections and the order of reads\<close>

text \<open>
  What the module calls and does not define: \<^verbatim>\<open>Path.extname\<close>, \<^verbatim>\<open>Path.join\<close>,
  \<^verbatim>\<open>getBlobContents\<close> (of \<^verbatim>\<open>./show\<close>), \<^verbatim>\<open>Fs.readFile\<close> and
  \<^verbatim>\<open>Buffer.toString('base64')\<close>. They are the fields of a \<open>world\<close>; a read
  either rejects with a reason of type \<open>'e\<close> (\<^term>\<open>Inl\<close>) or yields a buffer
  of type \<open>'b\<close>.
\<close>

record ('b, 'e) world =
  extname :: "string \<Rightarrow> string"
  join :: "string \<Rightarrow> string \<Rightarrow> string"
  getBlobContents :: "Repository \<Rightarrow> string \<Rightarrow> string \<Rightarrow> 'e + 'b"
  readFile :: "string \<Rightarrow> 'e + 'b"
  toBase64 :: "'b \<Rightarrow> string"

text \<open>
  A promise settles as rejected (\<^term>\<open>Inl\<close>) or fulfilled (\<^term>\<open>Inr\<close>). A rejection
  carries the reason of a failed read, or the \<^verbatim>\<open>TypeError\<close> JavaScript throws when a
  property of \<^verbatim>\<open>undefined\<close> is read.
\<close>

datatype 'e failure = ReadRejected 'e | TypeError

text \<open>The reads a call has issued, oldest first: blob reads name repository, commitish, path.\<close>

datatype read = ReadBlob Repository string string | ReadFile string

type_synonym ('e, 'a) promise = "('e failure + 'a) \<times> read list"

definition resolve :: "'a \<Rightarrow> ('e, 'a) promise" where
  "resolve a = (Inr a, [])"

text \<open>
  \<^verbatim>\<open>await m\<close> followed by the rest of an \<^verbatim>\<open>async\<close> body \<open>k\<close>: with no
  \<^verbatim>\<open>try\<close> around it, a rejected \<open>m\<close> rejects the whole function and \<open>k\<close> never runs.
\<close>

definition await :: "('e, 'a) promise \<Rightarrow> ('a \<Rightarrow> ('e, 'c) promise) \<Rightarrow> ('e, 'c) promise" where
  "await m k =
     (case m of
        (Inl e, t) \<Rightarrow> (Inl e, t)
      | (Inr a, t) \<Rightarrow> (case k a of (r, t') \<Rightarrow> (r, t @ t')))"

section \<open>The module\<close>

definition imageFileExtensions :: "string set" where
  "imageFileExtensions = {''.png'', ''.jpg'', ''.jpeg'', ''.gif''}"

text \<open>\<^verbatim>\<open>String.prototype.endsWith\<close> and \<^verbatim>\<open>String.prototype.indexOf\<close>.\<close>

definition endsWith :: "string \<Rightarrow> string \<Rightarrow> bool" where
  "endsWith s t = suffix t s"

fun indexOfFrom :: "string \<Rightarrow> string \<Rightarrow> nat \<Rightarrow> int" where
  "indexOfFrom [] pat i = (if pat = [] then int i else - 1)"
| "indexOfFrom (c # s) pat i =
     (if prefix pat (c # s) then int i else indexOfFrom s pat (Suc i))"

definition indexOf :: "string \<Rightarrow> string \<Rightarrow> int" where
  "indexOf s pat = indexOfFrom s pat 0"

definition formatLineEnding :: "string \<Rightarrow> string" where
  "formatLineEnding t =
     (if endsWith t [CHR 0x0A] then t
      else if endsWith t [CHR 0x0D] then t @ [CHR 0x0A]
      else t @ [CHR 0x0D, CHR 0x0A])"

definition getMediaType :: "string \<Rightarrow> string" where
  "getMediaType extension =
     (if extension = ''.png'' then ''image/png''
      else if extension = ''.jpg'' \<or> extension = ''.jpeg'' then ''image/jpg''
      else if extension = ''.gif'' then ''image/gif''
      else ''text/plain'')"

definition getBlobImage ::
  "('b, 'e) world \<Rightarrow> Repository \<Rightarrow> string \<Rightarrow> string \<Rightarrow> ('e, Image) promise" where
  "getBlobImage w repository p commitish =
     (let extension = extname w p in
      await (case getBlobContents w repository commitish p of
               Inl e \<Rightarrow> (Inl (ReadRejected e), [ReadBlob repository commitish p])
             | Inr b \<Rightarrow> (Inr b, [ReadBlob repository commitish p]))
        (\<lambda>contents.
           resolve \<lparr>contents = toBase64 w contents, mediaType = getMediaType extension\<rparr>))"

definition getWorkingDirectoryContents ::
  "('b, 'e) world \<Rightarrow> Repository \<Rightarrow> FileChange \<Rightarrow> ('e, string) promise" where
  "getWorkingDirectoryContents w repository file =
     (let p = join w (Repository.path repository) (FileChange.path file) in
      case readFile w p of
        Inl error \<Rightarrow> (Inl (ReadRejected error), [ReadFile p])
      | Inr buffer \<Rightarrow> (Inr (toBase64 w buffer), [ReadFile p]))"

definition getWorkingDirectoryImage ::
  "('b, 'e) world \<Rightarrow> Repository \<Rightarrow> FileChange \<Rightarrow> ('e, Image) promise" where
  "getWorkingDirectoryImage w repository file =
     (let extension = extname w (FileChange.path file) in
      await (getWorkingDirectoryContents w repository file)
        (\<lambda>contents. resolve \<lparr>contents = contents, mediaType = getMediaType extension\<rparr>))"

text \<open>\<^verbatim>\<open>file.oldPath || file.path\<close>: an absent or empty \<^verbatim>\<open>oldPath\<close> is falsy.\<close>

definition oldPathOrPath :: "FileChange \<Rightarrow> string" where
  "oldPathOrPath file =
     (case oldPath file of
        None \<Rightarrow> FileChange.path file
      | Some p \<Rightarrow> if p = [] then FileChange.path file else p)"

definition getImageDiff ::
  "('b, 'e) world \<Rightarrow> Repository \<Rightarrow> FileChange \<Rightarrow> string \<Rightarrow> ('e, ('f, 'g) IDiff) promise" where
  "getImageDiff w repository file commitish =
     (if isWorkingDirectoryFileChange file then
        (if status file = Conflicted then resolve (IImageDiff None None)
         else
           await (if status file \<noteq> Deleted
                  then await (getWorkingDirectoryImage w repository file) (\<lambda>i. resolve (Some i))
                  else resolve None)
             (\<lambda>current.
                await (if status file \<noteq> New
                       then await (getBlobImage w repository (oldPathOrPath file) ''HEAD'')
                              (\<lambda>i. resolve (Some i))
                       else resolve None)
                  (\<lambda>previous. resolve (IImageDiff previous current))))
      else
        await (if status file \<noteq> Deleted
               then await (getBlobImage w repository (FileChange.path file) commitish)
                      (\<lambda>i. resolve (Some i))
               else resolve None)
          (\<lambda>current.
             await (if status file \<noteq> New
                    then await (getBlobImage w repository (oldPathOrPath file) (commitish @ ''^''))
                           (\<lambda>i. resolve (Some i))
                    else resolve None)
               (\<lambda>previous. resolve (IImageDiff previous current))))"

text \<open>
  The two nested \<^verbatim>\<open>forEach\<close> loops of \<^verbatim>\<open>convertDiff\<close>, appending to the
  local \<^verbatim>\<open>diffText\<close>.
\<close>

definition diffText :: "DiffHunk list \<Rightarrow> string" where
  "diffText hs =
     foldl (\<lambda>acc hunk. foldl (\<lambda>acc l. acc @ formatLineEnding (text l)) acc (lines hunk)) [] hs"

text \<open>
  \<^verbatim>\<open>diff.hunks[0].lines[0].text\<close>: on an empty \<^verbatim>\<open>lines\<close> array
  \<^verbatim>\<open>lines[0]\<close> is \<^verbatim>\<open>undefined\<close> and reading its \<^verbatim>\<open>text\<close> throws a
  \<^verbatim>\<open>TypeError\<close>, which rejects the promise of the \<^verbatim>\<open>async\<close> function.
\<close>

definition convertDiff ::
  "('b, 'e) world \<Rightarrow> Repository \<Rightarrow> FileChange \<Rightarrow> ('f, 'g) RawDiff \<Rightarrow> string
     \<Rightarrow> ('e, ('f, 'g) IDiff) promise" where
  "convertDiff w repository file diff commitish =
     (if isBinary diff then
        (let extension = extname w (FileChange.path file) in
         if extension \<notin> imageFileExtensions then resolve IBinaryDiff
         else getImageDiff w repository file commitish)
      else
        (let textDiff =
               resolve (ITextDiff (diffText (hunks diff)) (hunks diff)
                          (diffLineForIndex diff) (diffHunkForIndex diff))
         in case hunks diff of
              [] \<Rightarrow> textDiff
            | hunk0 # _ \<Rightarrow>
                (case lines hunk0 of
                   [] \<Rightarrow> (Inl TypeError, [])
                 | line0 # _ \<Rightarrow>
                     if indexOf (text line0) ''Subproject'' > - 1 then resolve ISubmoduleDiff
                     else textDiff)))"

section \<open>Vocabulary of the statements\<close>

text \<open>What the world answers to a read that a trace records.\<close>

fun readResult :: "('b, 'e) world \<Rightarrow> read \<Rightarrow> 'e + 'b" where
  "readResult w (ReadBlob repository commitish p) = getBlobContents w repository commitish p"
| "readResult w (ReadFile p) = readFile w p"

section \<open>Example inputs\<close>

text \<open>
  Node's \<^verbatim>\<open>path.posix.extname\<close>, to run the examples: trailing slashes are
  dropped, the last segment is taken, and the result is that segment from its last dot on;
  it is empty when the segment has no dot, when its only dot is its first character, and
  for the segment \<^verbatim>\<open>..\<close>.
\<close>

definition posixExtname :: "string \<Rightarrow> string" where
  "posixExtname p =
     (let trimmed = rev (dropWhile (\<lambda>c. c = CHR ''/'') (rev p));
          base = rev (takeWhile (\<lambda>c. c \<noteq> CHR ''/'') (rev trimmed));
          ext = takeWhile (\<lambda>c. c \<noteq> CHR ''.'') (rev base)
      in if length ext = length base \<or> Suc (length ext) = length base \<or> base = ''..''
         then [] else CHR ''.'' # rev ext)"

definition exampleRepository :: Repository where
  "exampleRepository = \<lparr>Repository.path = ''/repo''\<rparr>"

text \<open>
  In the example worlds a buffer is written as the text it encodes to, and a rejection
  reason as its message. In \<open>healthyWorld\<close> every read is fulfilled; in
  \<open>missingBlobWorld\<close> the object store has none of the blobs asked for; in
  \<open>unreadableTreeWorld\<close> no file of the working tree can be read.
\<close>

definition healthyWorld :: "(string, string) world" where
  "healthyWorld =
     \<lparr>extname = posixExtname,
      join = (\<lambda>a b. a @ ''/'' @ b),
      getBlobContents = (\<lambda>repository commitish p. Inr (commitish @ '':'' @ p)),
      readFile = (\<lambda>p. Inr p),
      toBase64 = (\<lambda>b. b)\<rparr>"

definition missingBlobWorld :: "(string, string) world" where
  "missingBlobWorld =
     \<lparr>extname = posixExtname,
      join = (\<lambda>a b. a @ ''/'' @ b),
      getBlobContents = (\<lambda>repository commitish p. Inl ''missing object''),
      readFile = (\<lambda>p. Inr p),
      toBase64 = (\<lambda>b. b)\<rparr>"

definition unreadableTreeWorld :: "(string, string) world" where
  "unreadableTreeWorld =
     \<lparr>extname = posixExtname,
      join = (\<lambda>a b. a @ ''/'' @ b),
      getBlobContents = (\<lambda>repository commitish p. Inr (commitish @ '':'' @ p)),
      readFile = (\<lambda>p. Inl ''ENOENT''),
      toBase64 = (\<lambda>b. b)\<rparr>"

definition modifiedArchive :: FileChange where
  "modifiedArchive =
     \<lparr>path = ''bundle.zip'', status = Modified, oldPath = None,
      isWorkingDirectoryFileChange = False\<rparr>"

definition modifiedUpperCaseLogo :: FileChange where
  "modifiedUpperCaseLogo =
     \<lparr>path = ''logo.PNG'', status = Modified, oldPath = None,
      isWorkingDirectoryFileChange = False\<rparr>"

definition modifiedWorkingLogo :: FileChange where
  "modifiedWorkingLogo =
     \<lparr>path = ''logo.png'', status = Modified, oldPath = None,
      isWorkingDirectoryFileChange = True\<rparr>"

definition modifiedLogo :: FileChange where
  "modifiedLogo =
     \<lparr>path = ''logo.png'', status = Modified, oldPath = None,
      isWorkingDirectoryFileChange = False\<rparr>"

definition renamedLogo :: FileChange where
  "renamedLogo =
     \<lparr>path = ''new.png'', status = Renamed, oldPath = Some ''old.png'',
      isWorkingDirectoryFileChange = True\<rparr>"

definition newLogo :: FileChange where
  "newLogo =
     \<lparr>path = ''logo.png'', status = New, oldPath = None,
      isWorkingDirectoryFileChange = True\<rparr>"

definition deletedLogo :: FileChange where
  "deletedLogo =
     \<lparr>path = ''logo.png'', status = Deleted, oldPath = None,
      isWorkingDirectoryFileChange = False\<rparr>"

definition conflictedLogo :: FileChange where
  "conflictedLogo =
     \<lparr>path = ''logo.png'', status = Conflicted, oldPath = None,
      isWorkingDirectoryFileChange = True\<rparr>"

definition lineAt :: "DiffHunk list \<Rightarrow> nat \<Rightarrow> DiffLine option" where
  "lineAt hs i =
     (let ls = concat (map lines hs) in if i < length ls then Some (ls ! i) else None)"

definition hunkAt :: "DiffHunk list \<Rightarrow> nat \<Rightarrow> DiffHunk option" where
  "hunkAt hs i = (if i < length hs then Some (hs ! i) else None)"

definition rawDiffOf ::
  "bool \<Rightarrow> DiffHunk list \<Rightarrow> (nat \<Rightarrow> DiffLine option, nat \<Rightarrow> DiffHunk option) RawDiff" where
  "rawDiffOf b hs =
     \<lparr>isBinary = b, hunks = hs, diffLineForIndex = lineAt hs, diffHunkForIndex = hunkAt hs\<rparr>"

definition mixedHunk :: DiffHunk where
  "mixedHunk =
     \<lparr>lines = [\<lparr>text = [CHR ''a'', CHR 0x0D]\<rparr>, \<lparr>text = ''b''\<rparr>,
               \<lparr>text = [CHR ''c'', CHR 0x0A]\<rparr>]\<rparr>"

definition terminatedHunk :: DiffHunk where
  "terminatedHunk =
     \<lparr>lines = [\<lparr>text = [CHR ''x'', CHR 0x0A]\<rparr>, \<lparr>text = [CHR 0x0D, CHR 0x0A]\<rparr>]\<rparr>"

definition submoduleHunk :: DiffHunk where
  "submoduleHunk =
     \<lparr>lines = [\<lparr>text = ''-Subproject commit 1f66975''\<rparr>,
               \<lparr>text = ''+Subproject commit 4b825dc''\<rparr>]\<rparr>"

lemmas eval_defs = getImageDiff_def getBlobImage_def getWorkingDirectoryImage_def
  getWorkingDirectoryContents_def await_def resolve_def oldPathOrPath_def getMediaType_def
  convertDiff_def imageFileExtensions_def Let_def

section \<open>Library functions\<close>

lemma endsWith_last: "endsWith s [c] \<longleftrightarrow> s \<noteq> [] \<and> last s = c"
  by (cases s rule: rev_cases) (auto simp: endsWith_def)

lemma indexOfFrom_sublist: "indexOfFrom s pat i > - 1 \<longleftrightarrow> sublist pat s"
  by (induction s arbitrary: i) (auto simp: sublist_Cons_right)

lemma indexOf_sublist: "indexOf s pat > - 1 \<longleftrightarrow> sublist pat s"
  by (simp add: indexOf_def indexOfFrom_sublist)

section \<open>Line endings\<close>

lemma formatLineEnding_newline: "t \<noteq> [] \<Longrightarrow> last t = CHR 0x0A \<Longrightarrow> formatLineEnding t = t"
  by (simp add: formatLineEnding_def endsWith_last)

lemma formatLineEnding_return:
  "t \<noteq> [] \<Longrightarrow> last t = CHR 0x0D \<Longrightarrow> formatLineEnding t = t @ [CHR 0x0A]"
  by (simp add: formatLineEnding_def endsWith_last)

lemma formatLineEnding_neither:
  "t = [] \<or> (last t \<noteq> CHR 0x0A \<and> last t \<noteq> CHR 0x0D) \<Longrightarrow>
     formatLineEnding t = t @ [CHR 0x0D, CHR 0x0A]"
  by (auto simp: formatLineEnding_def endsWith_last)

text \<open>The inner and the outer loop, from any value of the accumulator.\<close>

lemma foldl_lines:
  "foldl (\<lambda>acc l. acc @ formatLineEnding (text l)) acc ls =
     acc @ concat (map (\<lambda>l. formatLineEnding (text l)) ls)"
  by (induction ls arbitrary: acc) auto

lemma foldl_hunks:
  "foldl (\<lambda>acc hunk. foldl (\<lambda>acc l. acc @ formatLineEnding (text l)) acc (lines hunk)) acc hs =
     acc @ concat (map (\<lambda>l. formatLineEnding (text l)) (concat (map lines hs)))"
  by (induction hs arbitrary: acc) (auto simp: foldl_lines)

lemma diffText_concat:
  "diffText hs = concat (map (\<lambda>l. formatLineEnding (text l)) (concat (map lines hs)))"
  by (simp add: diffText_def foldl_hunks)

section \<open>Reading images\<close>

lemma getBlobImage_eq:
  "getBlobImage w r p c =
     (case getBlobContents w r c p of
        Inl e \<Rightarrow> (Inl (ReadRejected e), [ReadBlob r c p])
      | Inr b \<Rightarrow>
          (Inr \<lparr>contents = toBase64 w b, mediaType = getMediaType (extname w p)\<rparr>,
           [ReadBlob r c p]))"
  by (simp add: getBlobImage_def await_def resolve_def split: sum.split)

lemma getWorkingDirectoryImage_eq:
  "getWorkingDirectoryImage w r f =
     (case readFile w (join w (Repository.path r) (FileChange.path f)) of
        Inl e \<Rightarrow>
          (Inl (ReadRejected e), [ReadFile (join w (Repository.path r) (FileChange.path f))])
      | Inr b \<Rightarrow>
          (Inr \<lparr>contents = toBase64 w b,
                mediaType = getMediaType (extname w (FileChange.path f))\<rparr>,
           [ReadFile (join w (Repository.path r) (FileChange.path f))]))"
  by (simp add: getWorkingDirectoryImage_def getWorkingDirectoryContents_def await_def
      resolve_def Let_def split: sum.split)

lemmas image_reads = getImageDiff_def await_def resolve_def getBlobImage_eq
  getWorkingDirectoryImage_eq

text \<open>
  How \<open>getImageDiff\<close> settles: fulfilled exactly when every read it issued was
  fulfilled; rejected with the reason of the read it issued last, all earlier ones
  having been fulfilled; and fulfilled with nothing but the image variant.
\<close>

lemma getImageDiff_settles:
  "getImageDiff w repo f c = (r, t) \<Longrightarrow>
     (\<exists>p cu. r = Inr (IImageDiff p cu)) \<longleftrightarrow> (\<forall>rd \<in> set t. \<not> isl (readResult w rd))"
  by (auto simp: image_reads split: sum.splits if_splits)

lemma getImageDiff_rejects:
  "getImageDiff w repo f c = (Inl e, t) \<Longrightarrow>
     t \<noteq> [] \<and> (\<exists>x. e = ReadRejected x \<and> readResult w (last t) = Inl x) \<and>
     (\<forall>rd \<in> set (butlast t). \<not> isl (readResult w rd))"
  by (auto simp: image_reads split: sum.splits if_splits)

lemma getImageDiff_fulfils:
  "getImageDiff w repo f c = (Inr r, t) \<Longrightarrow> \<exists>p cu. r = IImageDiff p cu"
  by (auto simp: image_reads split: sum.splits if_splits)

lemma convertDiff_text:
  "convertDiff w repo f d c = (Inr (ITextDiff tx hs fl fh), tr) \<Longrightarrow>
     tx = diffText (hunks d) \<and> hs = hunks d \<and> fl = diffLineForIndex d \<and>
     fh = diffHunkForIndex d \<and> tr = []"
  by (auto simp: convertDiff_def resolve_def Let_def
      dest: getImageDiff_fulfils split: if_splits list.splits)

section \<open>The claims\<close>

subsection \<open>C1: a failed read\<close>

text \<open>
  Claim C1, as amended. For every conversion that reaches the image resolver (a binary diff
  of a file with an image extension), \<open>convertDiff\<close> settles as \<open>getImageDiff\<close> does, and
  a failed blob or working-tree read is not caught: whenever one of the reads it issued
  failed, \<open>getImageDiff\<close> is rejected, and a rejection carries the reason of a failed
  read, which is the last read it issued, every earlier read having been fulfilled; no
  side is returned. It is fulfilled exactly when every read it issued was fulfilled, and
  then with the image variant and no other.
\<close>

theorem getImageDiff_read_failure_rejects:
  assumes "getImageDiff w repository fc commitish = (r, t)"
  shows "(isBinary d \<and> extname w (FileChange.path fc) \<in> imageFileExtensions \<longrightarrow>
            convertDiff w repository fc d commitish = (r, t)) \<and>
         ((\<exists>p cu. r = Inr (IImageDiff p cu)) \<longleftrightarrow> (\<forall>rd \<in> set t. \<not> isl (readResult w rd))) \<and>
         (\<forall>e. r = Inl e \<longrightarrow>
            t \<noteq> [] \<and> (\<exists>x. e = ReadRejected x \<and> readResult w (last t) = Inl x) \<and>
            (\<forall>rd \<in> set (butlast t). \<not> isl (readResult w rd))) \<and>
         ((\<exists>rd \<in> set t. isl (readResult w rd)) \<longrightarrow>
            (\<exists>x. r = Inl (ReadRejected x) \<and> readResult w (last t) = Inl x)) \<and>
         (\<forall>v. r = Inr v \<longrightarrow> (\<exists>p cu. v = IImageDiff p cu))"
proof -
  have conv: "isBinary d \<and> extname w (FileChange.path fc) \<in> imageFileExtensions \<longrightarrow>
          convertDiff w repository fc d commitish = (r, t)"
    using assms by (simp add: convertDiff_def)
  note iff = getImageDiff_settles [OF assms]
  show ?thesis
  proof (cases r)
    case (Inl e)
    note g = assms [unfolded Inl]
    from getImageDiff_rejects [OF g] obtain x where
      x: "t \<noteq> []" "e = ReadRejected x" "readResult w (last t) = Inl x"
        "\<forall>rd \<in> set (butlast t). \<not> isl (readResult w rd)"
      by blast
    from Inl iff have bad: "\<exists>rd \<in> set t. isl (readResult w rd)" by simp
    from Inl x bad conv show ?thesis by simp
  next
    case (Inr v)
    note g = assms [unfolded Inr]
    from getImageDiff_fulfils [OF g] obtain p cu where v: "v = IImageDiff p cu" by blast
    with Inr iff have ok: "\<forall>rd \<in> set t. \<not> isl (readResult w rd)" by simp
    from Inr v ok conv show ?thesis by simp
  qed
qed

theorem getImageDiff_read_failure_rejects_witness:
  "getImageDiff missingBlobWorld exampleRepository modifiedWorkingLogo ''HEAD'' =
     (Inl (ReadRejected ''missing object''),
      [ReadFile ''/repo/logo.png'', ReadBlob exampleRepository ''HEAD'' ''logo.png'']) \<and>
   isBinary (rawDiffOf True []) \<and>
   extname missingBlobWorld (FileChange.path modifiedWorkingLogo) \<in> imageFileExtensions \<and>
   convertDiff missingBlobWorld exampleRepository modifiedWorkingLogo (rawDiffOf True [])
     ''HEAD'' =
     (Inl (ReadRejected ''missing object''),
      [ReadFile ''/repo/logo.png'', ReadBlob exampleRepository ''HEAD'' ''logo.png'']) \<and>
   readResult missingBlobWorld
     (last [ReadFile ''/repo/logo.png'', ReadBlob exampleRepository ''HEAD'' ''logo.png'']) =
     Inl ''missing object'' \<and>
   isl (readResult missingBlobWorld (ReadBlob exampleRepository ''HEAD'' ''logo.png'')) \<and>
   \<not> isl (readResult missingBlobWorld (ReadFile ''/repo/logo.png''))"
  using getImageDiff_read_failure_rejects
    [of missingBlobWorld exampleRepository modifiedWorkingLogo "''HEAD''"
       "Inl (ReadRejected ''missing object'')"
       "[ReadFile ''/repo/logo.png'', ReadBlob exampleRepository ''HEAD'' ''logo.png'']"
       "rawDiffOf True []"]
  by (simp add: missingBlobWorld_def exampleRepository_def modifiedWorkingLogo_def
      rawDiffOf_def posixExtname_def eval_defs)

text \<open>
  Claim C1 as the specification states it fails: for a modified \<^verbatim>\<open>logo.png\<close> of the
  working tree the file is read, its blob at \<^verbatim>\<open>HEAD\<close> is not found, and the
  resolver, and the conversion with it, is rejected with that reason instead of returning
  the image variant with the previous side absent and the current side present.
\<close>

theorem getImageDiff_absent_on_failure_counterexample:
  "readFile missingBlobWorld ''/repo/logo.png'' = Inr ''/repo/logo.png'' \<and>
   getBlobContents missingBlobWorld exampleRepository ''HEAD'' ''logo.png'' =
     Inl ''missing object'' \<and>
   fst (getImageDiff missingBlobWorld exampleRepository modifiedWorkingLogo ''HEAD''
          :: (string, (unit, unit) IDiff) promise) =
     Inl (ReadRejected ''missing object'') \<and>
   fst (getImageDiff missingBlobWorld exampleRepository modifiedWorkingLogo ''HEAD''
          :: (string, (unit, unit) IDiff) promise) \<noteq>
     Inr (IImageDiff None (Some \<lparr>contents = ''/repo/logo.png'', mediaType = ''image/png''\<rparr>)) \<and>
   fst (convertDiff missingBlobWorld exampleRepository modifiedWorkingLogo (rawDiffOf True [])
          ''HEAD'') = Inl (ReadRejected ''missing object'')"
  by (simp add: missingBlobWorld_def exampleRepository_def modifiedWorkingLogo_def
      rawDiffOf_def posixExtname_def eval_defs)

subsection \<open>C2: a first hunk without lines\<close>

text \<open>
  Claim C2 asks that a text diff whose first hunk has no lines falls through to the text
  variant. \<open>convertDiff\<close> guards \<^verbatim>\<open>diff.hunks[0]\<close> by the length of
  \<^verbatim>\<open>hunks\<close> but reads \<^verbatim>\<open>lines[0].text\<close> unguarded: on every such diff it is
  rejected with a \<^verbatim>\<open>TypeError\<close>, whatever the file, the later hunks and the world.
\<close>

theorem convertDiff_empty_first_hunk_rejects:
  "convertDiff w repository fc
     \<lparr>isBinary = False, hunks = \<lparr>lines = []\<rparr> # hs, diffLineForIndex = fl,
      diffHunkForIndex = fh\<rparr>
     commitish = (Inl TypeError, [])"
  by (simp add: convertDiff_def)

subsection \<open>C3: binary diffs\<close>

text \<open>
  Claim C3, as amended. For every binary \<^verbatim>\<open>RawDiff\<close>: \<open>convertDiff\<close> returns the
  binary variant, which has no payload, exactly when the extension of the file's path is not
  one of \<^verbatim>\<open>.png\<close>, \<^verbatim>\<open>.jpg\<close>, \<^verbatim>\<open>.jpeg\<close>, \<^verbatim>\<open>.gif\<close> (compared as
  they are, case included); it returns the image variant exactly when the extension is one
  of them and every read the image resolver issued was fulfilled; otherwise, the extension
  being one of them, it is rejected with the reason of the failed read. It never returns
  the text or the submodule variant.
\<close>

theorem convertDiff_binary:
  assumes "isBinary d" and "convertDiff w repository fc d commitish = (r, t)"
  shows "(r = Inr IBinaryDiff \<longleftrightarrow> extname w (FileChange.path fc) \<notin> imageFileExtensions) \<and>
         ((\<exists>p cu. r = Inr (IImageDiff p cu)) \<longleftrightarrow>
            extname w (FileChange.path fc) \<in> imageFileExtensions \<and>
            (\<forall>rd \<in> set t. \<not> isl (readResult w rd))) \<and>
         (\<forall>e. r = Inl e \<longrightarrow>
            extname w (FileChange.path fc) \<in> imageFileExtensions \<and>
            (\<exists>x. e = ReadRejected x \<and> readResult w (last t) = Inl x)) \<and>
         r \<noteq> Inr ISubmoduleDiff \<and> (\<forall>tx hs fl fh. r \<noteq> Inr (ITextDiff tx hs fl fh))"
proof (cases "extname w (FileChange.path fc) \<in> imageFileExtensions")
  case False
  with assms have "r = Inr IBinaryDiff" and "t = []"
    by (auto simp: convertDiff_def resolve_def)
  with False show ?thesis by simp
next
  case True
  with assms have g: "getImageDiff w repository fc commitish = (r, t)"
    by (simp add: convertDiff_def)
  show ?thesis
  proof (cases r)
    case (Inl e)
    with g getImageDiff_rejects [of w repository fc commitish e t]
      getImageDiff_settles [OF g] True
    show ?thesis by auto
  next
    case (Inr v)
    with g getImageDiff_fulfils [of w repository fc commitish v t]
      getImageDiff_settles [OF g] True
    show ?thesis by auto
  qed
qed

theorem convertDiff_binary_witness:
  "isBinary (rawDiffOf True []) \<and>
   extname healthyWorld (FileChange.path modifiedLogo) \<in> imageFileExtensions \<and>
   convertDiff healthyWorld exampleRepository modifiedLogo (rawDiffOf True []) ''4b825dc'' =
     (Inr (IImageDiff (Some \<lparr>contents = ''4b825dc^:logo.png'', mediaType = ''image/png''\<rparr>)
             (Some \<lparr>contents = ''4b825dc:logo.png'', mediaType = ''image/png''\<rparr>)),
      [ReadBlob exampleRepository ''4b825dc'' ''logo.png'',
       ReadBlob exampleRepository ''4b825dc^'' ''logo.png'']) \<and>
   \<not> isl (readResult healthyWorld (ReadBlob exampleRepository ''4b825dc'' ''logo.png'')) \<and>
   \<not> isl (readResult healthyWorld (ReadBlob exampleRepository ''4b825dc^'' ''logo.png'')) \<and>
   extname healthyWorld (FileChange.path modifiedArchive) \<notin> imageFileExtensions \<and>
   convertDiff healthyWorld exampleRepository modifiedArchive (rawDiffOf True []) ''4b825dc'' =
     (Inr IBinaryDiff, []) \<and>
   extname healthyWorld (FileChange.path modifiedUpperCaseLogo) = ''.PNG'' \<and>
   ''.PNG'' \<notin> imageFileExtensions \<and>
   convertDiff healthyWorld exampleRepository modifiedUpperCaseLogo (rawDiffOf True [])
     ''4b825dc'' = (Inr IBinaryDiff, [])"
  using convertDiff_binary
    [of "rawDiffOf True []" healthyWorld exampleRepository modifiedLogo "''4b825dc''"
       "Inr (IImageDiff (Some \<lparr>contents = ''4b825dc^:logo.png'', mediaType = ''image/png''\<rparr>)
              (Some \<lparr>contents = ''4b825dc:logo.png'', mediaType = ''image/png''\<rparr>))"
       "[ReadBlob exampleRepository ''4b825dc'' ''logo.png'',
         ReadBlob exampleRepository ''4b825dc^'' ''logo.png'']"]
    convertDiff_binary
    [of "rawDiffOf True []" healthyWorld exampleRepository modifiedArchive "''4b825dc''"
       "Inr IBinaryDiff" "[]"]
    convertDiff_binary
    [of "rawDiffOf True []" healthyWorld exampleRepository modifiedUpperCaseLogo "''4b825dc''"
       "Inr IBinaryDiff" "[]"]
  by (simp add: healthyWorld_def exampleRepository_def modifiedLogo_def modifiedArchive_def
      modifiedUpperCaseLogo_def rawDiffOf_def posixExtname_def eval_defs)

text \<open>
  Claim C3 as the specification states it fails: the diff is binary and the extension is
  \<^verbatim>\<open>.png\<close>, yet no image variant is returned, because the read of the blob is
  rejected and \<open>convertDiff\<close> with it.
\<close>

theorem convertDiff_binary_image_counterexample:
  "isBinary (rawDiffOf True []) \<and>
   extname missingBlobWorld (FileChange.path modifiedLogo) = ''.png'' \<and>
   ''.png'' \<in> imageFileExtensions \<and>
   convertDiff missingBlobWorld exampleRepository modifiedLogo (rawDiffOf True []) ''4b825dc'' =
     (Inl (ReadRejected ''missing object''),
      [ReadBlob exampleRepository ''4b825dc'' ''logo.png''])"
  by (simp add: missingBlobWorld_def exampleRepository_def modifiedLogo_def rawDiffOf_def
      posixExtname_def eval_defs)

subsection \<open>C4: submodule changes\<close>

text \<open>
  Claim C4. For every \<^verbatim>\<open>RawDiff\<close> that is not binary and has at least one hunk, if the
  text of the first line of that (the first) hunk contains \<^verbatim>\<open>Subproject\<close>, then
  \<open>convertDiff\<close> returns the submodule variant, and it issues no read.
\<close>

theorem convertDiff_submodule:
  assumes "\<not> isBinary d" and "hunks d = hunk0 # hs" and "lines hunk0 = line0 # ls"
    and "sublist ''Subproject'' (text line0)"
  shows "convertDiff w repository fc d commitish = (Inr ISubmoduleDiff, [])"
  using assms by (simp add: convertDiff_def resolve_def indexOf_sublist)

theorem convertDiff_submodule_witness:
  "\<not> isBinary (rawDiffOf False [submoduleHunk]) \<and>
   hunks (rawDiffOf False [submoduleHunk]) = submoduleHunk # [] \<and>
   lines submoduleHunk =
     \<lparr>text = ''-Subproject commit 1f66975''\<rparr> # [\<lparr>text = ''+Subproject commit 4b825dc''\<rparr>] \<and>
   sublist ''Subproject'' (text \<lparr>text = ''-Subproject commit 1f66975''\<rparr>) \<and>
   convertDiff healthyWorld exampleRepository modifiedLogo (rawDiffOf False [submoduleHunk])
     ''HEAD'' = (Inr ISubmoduleDiff, [])"
proof -
  have s: "sublist ''Subproject'' (text \<lparr>text = ''-Subproject commit 1f66975''\<rparr>)"
    unfolding sublist_def by (intro exI [of _ "''-''"] exI [of _ "'' commit 1f66975''"]) simp
  show ?thesis
    using s convertDiff_submodule [of "rawDiffOf False [submoduleHunk]" submoduleHunk "[]"
        "\<lparr>text = ''-Subproject commit 1f66975''\<rparr>"
        "[\<lparr>text = ''+Subproject commit 4b825dc''\<rparr>]"
        healthyWorld exampleRepository modifiedLogo "''HEAD''"]
    by (simp add: rawDiffOf_def submoduleHunk_def)
qed

subsection \<open>C5 and C6: the display text\<close>

text \<open>
  Claim C5. The text of a converted diff, \<open>diffText\<close>, is the concatenation, in hunk order
  and then line order, of every line's text after \<open>formatLineEnding\<close>, which leaves a line
  ending in \<^verbatim>\<open>\n\<close> as it is, appends \<^verbatim>\<open>\n\<close> to a line ending in
  \<^verbatim>\<open>\r\<close>, and appends \<^verbatim>\<open>\r\n\<close> to a line ending in neither (the empty
  line included). The lines \<^verbatim>\<open>"a\r"\<close>, \<^verbatim>\<open>"b"\<close>, \<^verbatim>\<open>"c\n"\<close> give
  \<^verbatim>\<open>"a\r\n" + "b\r\n" + "c\n"\<close>.
\<close>

theorem diffText_terminates_each_line:
  "diffText hs = concat (map (\<lambda>l. formatLineEnding (text l)) (concat (map lines hs))) \<and>
   (t \<noteq> [] \<and> last t = CHR 0x0A \<longrightarrow> formatLineEnding t = t) \<and>
   (t \<noteq> [] \<and> last t = CHR 0x0D \<longrightarrow> formatLineEnding t = t @ [CHR 0x0A]) \<and>
   (t = [] \<or> (last t \<noteq> CHR 0x0A \<and> last t \<noteq> CHR 0x0D) \<longrightarrow>
      formatLineEnding t = t @ [CHR 0x0D, CHR 0x0A]) \<and>
   diffText [\<lparr>lines = [\<lparr>text = [CHR ''a'', CHR 0x0D]\<rparr>, \<lparr>text = ''b''\<rparr>,
                        \<lparr>text = [CHR ''c'', CHR 0x0A]\<rparr>]\<rparr>] =
     [CHR ''a'', CHR 0x0D, CHR 0x0A] @ [CHR ''b'', CHR 0x0D, CHR 0x0A] @ [CHR ''c'', CHR 0x0A]"
proof -
  have "diffText [\<lparr>lines = [\<lparr>text = [CHR ''a'', CHR 0x0D]\<rparr>, \<lparr>text = ''b''\<rparr>,
                        \<lparr>text = [CHR ''c'', CHR 0x0A]\<rparr>]\<rparr>] =
     [CHR ''a'', CHR 0x0D, CHR 0x0A] @ [CHR ''b'', CHR 0x0D, CHR 0x0A] @ [CHR ''c'', CHR 0x0A]"
    by (simp add: diffText_def formatLineEnding_def endsWith_last)
  then show ?thesis
    using formatLineEnding_newline [of t] formatLineEnding_return [of t]
      formatLineEnding_neither [of t] diffText_concat [of hs]
    by blast
qed

theorem diffText_terminates_each_line_witness:
  "diffText [mixedHunk, submoduleHunk] =
     [CHR ''a'', CHR 0x0D, CHR 0x0A, CHR ''b'', CHR 0x0D, CHR 0x0A, CHR ''c'', CHR 0x0A] @
     ''-Subproject commit 1f66975'' @ [CHR 0x0D, CHR 0x0A] @
     ''+Subproject commit 4b825dc'' @ [CHR 0x0D, CHR 0x0A] \<and>
   formatLineEnding [CHR ''c'', CHR 0x0A] = [CHR ''c'', CHR 0x0A] \<and>
   formatLineEnding [CHR ''a'', CHR 0x0D] = [CHR ''a'', CHR 0x0D, CHR 0x0A] \<and>
   formatLineEnding ''b'' = [CHR ''b'', CHR 0x0D, CHR 0x0A] \<and>
   formatLineEnding [] = [CHR 0x0D, CHR 0x0A]"
  using diffText_terminates_each_line [of "[mixedHunk, submoduleHunk]" "[CHR ''c'', CHR 0x0A]"]
    diffText_terminates_each_line [of "[]" "[CHR ''a'', CHR 0x0D]"]
    diffText_terminates_each_line [of "[]" "''b''"]
    diffText_terminates_each_line [of "[]" "[]"]
  by (simp add: mixedHunk_def submoduleHunk_def formatLineEnding_def endsWith_last)

text \<open>
  Claim C6. For every \<^verbatim>\<open>RawDiff\<close> in which the text of every line ends in
  \<^verbatim>\<open>\n\<close>, the display text is the plain concatenation of the line texts, unchanged.
\<close>

theorem diffText_noop_on_terminated_lines:
  assumes "\<forall>h \<in> set (hunks d). \<forall>l \<in> set (lines h). text l \<noteq> [] \<and> last (text l) = CHR 0x0A"
  shows "diffText (hunks d) = concat (map text (concat (map lines (hunks d))))"
proof -
  have "\<forall>l \<in> set (concat (map lines (hunks d))). formatLineEnding (text l) = text l"
    using assms by (auto simp: formatLineEnding_newline)
  then have "map (\<lambda>l. formatLineEnding (text l)) (concat (map lines (hunks d))) =
        map text (concat (map lines (hunks d)))"
    by (intro map_cong) auto
  then show ?thesis by (simp only: diffText_concat)
qed

theorem diffText_noop_on_terminated_lines_witness:
  "last (text \<lparr>text = [CHR ''c'', CHR 0x0A]\<rparr>) = CHR 0x0A \<and>
   last (text \<lparr>text = [CHR ''x'', CHR 0x0A]\<rparr>) = CHR 0x0A \<and>
   last (text \<lparr>text = [CHR 0x0D, CHR 0x0A]\<rparr>) = CHR 0x0A \<and>
   diffText (hunks (rawDiffOf False
       [\<lparr>lines = [\<lparr>text = [CHR ''c'', CHR 0x0A]\<rparr>]\<rparr>, terminatedHunk])) =
     [CHR ''c'', CHR 0x0A, CHR ''x'', CHR 0x0A, CHR 0x0D, CHR 0x0A]"
  using diffText_noop_on_terminated_lines
    [of "rawDiffOf False [\<lparr>lines = [\<lparr>text = [CHR ''c'', CHR 0x0A]\<rparr>]\<rparr>, terminatedHunk]"]
  by (simp add: rawDiffOf_def terminatedHunk_def)

subsection \<open>C7 and C8: which sides are read\<close>

text \<open>
  Claim C7. With status \<^verbatim>\<open>New\<close> the one read \<open>getImageDiff\<close> issues is that of the
  current side, so the previous side is not read, and the previous side of what it returns
  is absent. With status \<^verbatim>\<open>Deleted\<close> the one read is that of the previous side and
  the current side is absent. For a working-tree change with status \<^verbatim>\<open>Conflicted\<close>
  both sides are absent in every world, and no read is issued.
\<close>

theorem getImageDiff_absent_sides:
  "(status fc = New \<longrightarrow>
      getImageDiff w repository fc commitish =
        (let rd = (if isWorkingDirectoryFileChange fc
                   then ReadFile (join w (Repository.path repository) (FileChange.path fc))
                   else ReadBlob repository commitish (FileChange.path fc))
         in case readResult w rd of
              Inl e \<Rightarrow> (Inl (ReadRejected e), [rd])
            | Inr b \<Rightarrow>
                (Inr (IImageDiff None
                        (Some \<lparr>contents = toBase64 w b,
                               mediaType = getMediaType (extname w (FileChange.path fc))\<rparr>)),
                 [rd]))) \<and>
   (status fc = Deleted \<longrightarrow>
      getImageDiff w repository fc commitish =
        (let rd = ReadBlob repository
                    (if isWorkingDirectoryFileChange fc then ''HEAD'' else commitish @ ''^'')
                    (oldPathOrPath fc)
         in case readResult w rd of
              Inl e \<Rightarrow> (Inl (ReadRejected e), [rd])
            | Inr b \<Rightarrow>
                (Inr (IImageDiff
                        (Some \<lparr>contents = toBase64 w b,
                               mediaType = getMediaType (extname w (oldPathOrPath fc))\<rparr>)
                        None),
                 [rd]))) \<and>
   (isWorkingDirectoryFileChange fc \<and> status fc = Conflicted \<longrightarrow>
      getImageDiff w repository fc commitish = (Inr (IImageDiff None None), []))"
  by (simp add: image_reads Let_def split: sum.split)

theorem getImageDiff_absent_sides_witness:
  "status newLogo = New \<and>
   getImageDiff healthyWorld exampleRepository newLogo ''HEAD'' =
     (Inr (IImageDiff None (Some \<lparr>contents = ''/repo/logo.png'', mediaType = ''image/png''\<rparr>)),
      [ReadFile ''/repo/logo.png'']) \<and>
   status deletedLogo = Deleted \<and>
   getImageDiff healthyWorld exampleRepository deletedLogo ''4b825dc'' =
     (Inr (IImageDiff (Some \<lparr>contents = ''4b825dc^:logo.png'', mediaType = ''image/png''\<rparr>)
             None),
      [ReadBlob exampleRepository ''4b825dc^'' ''logo.png'']) \<and>
   isWorkingDirectoryFileChange conflictedLogo \<and> status conflictedLogo = Conflicted \<and>
   getImageDiff healthyWorld exampleRepository conflictedLogo ''HEAD'' =
     (Inr (IImageDiff None None), [])"
  using getImageDiff_absent_sides [of newLogo healthyWorld exampleRepository "''HEAD''"]
    getImageDiff_absent_sides [of deletedLogo healthyWorld exampleRepository "''4b825dc''"]
    getImageDiff_absent_sides [of conflictedLogo healthyWorld exampleRepository "''HEAD''"]
  by (simp add: healthyWorld_def exampleRepository_def newLogo_def deletedLogo_def
      conflictedLogo_def oldPathOrPath_def getMediaType_def posixExtname_def)

text \<open>
  Claim C8, as amended. For a renamed working-tree file with a prior path (a non-empty
  \<^verbatim>\<open>oldPath\<close>), \<open>getImageDiff\<close> first reads the current side from the working tree
  at the current path; only when that read is fulfilled does it read the previous side, at
  revision \<^verbatim>\<open>HEAD\<close> and at the prior path, not the current one. A rejected read
  rejects the resolution; with both reads fulfilled both sides are returned.
\<close>

theorem getImageDiff_renamed_reads_prior_path:
  assumes "isWorkingDirectoryFileChange fc" and "status fc = Renamed"
    and "oldPath fc = Some prior" and "prior \<noteq> []"
  shows "getImageDiff w repository fc commitish =
     (let currentRead = ReadFile (join w (Repository.path repository) (FileChange.path fc));
          previousRead = ReadBlob repository ''HEAD'' prior
      in case readResult w currentRead of
           Inl e \<Rightarrow> (Inl (ReadRejected e), [currentRead])
         | Inr cb \<Rightarrow>
             (case readResult w previousRead of
                Inl e \<Rightarrow> (Inl (ReadRejected e), [currentRead, previousRead])
              | Inr pb \<Rightarrow>
                  (Inr (IImageDiff
                          (Some \<lparr>contents = toBase64 w pb,
                                 mediaType = getMediaType (extname w prior)\<rparr>)
                          (Some \<lparr>contents = toBase64 w cb,
                                 mediaType = getMediaType (extname w (FileChange.path fc))\<rparr>)),
                   [currentRead, previousRead])))"
  using assms
  by (simp add: image_reads oldPathOrPath_def Let_def split: sum.split)

theorem getImageDiff_renamed_reads_prior_path_witness:
  "isWorkingDirectoryFileChange renamedLogo \<and> status renamedLogo = Renamed \<and>
   oldPath renamedLogo = Some ''old.png'' \<and> ''old.png'' \<noteq> [] \<and>
   FileChange.path renamedLogo = ''new.png'' \<and>
   getImageDiff healthyWorld exampleRepository renamedLogo ''HEAD'' =
     (Inr (IImageDiff (Some \<lparr>contents = ''HEAD:old.png'', mediaType = ''image/png''\<rparr>)
             (Some \<lparr>contents = ''/repo/new.png'', mediaType = ''image/png''\<rparr>)),
      [ReadFile ''/repo/new.png'', ReadBlob exampleRepository ''HEAD'' ''old.png''])"
  using getImageDiff_renamed_reads_prior_path
    [of renamedLogo "''old.png''" healthyWorld exampleRepository "''HEAD''"]
  by (simp add: healthyWorld_def exampleRepository_def renamedLogo_def getMediaType_def
      posixExtname_def)

text \<open>
  Claim C8 as the specification states it fails: when \<^verbatim>\<open>new.png\<close> cannot be read
  from the working tree, the resolution is rejected after that one read, and the previous
  side is never read at \<^verbatim>\<open>HEAD\<close>, at the prior path or at any other.
\<close>

theorem getImageDiff_renamed_previous_unread_counterexample:
  "isWorkingDirectoryFileChange renamedLogo \<and> status renamedLogo = Renamed \<and>
   oldPath renamedLogo = Some ''old.png'' \<and>
   getImageDiff unreadableTreeWorld exampleRepository renamedLogo ''HEAD'' =
     (Inl (ReadRejected ''ENOENT''), [ReadFile ''/repo/new.png'']) \<and>
   ReadBlob exampleRepository ''HEAD'' ''old.png'' \<notin>
     set (snd (getImageDiff unreadableTreeWorld exampleRepository renamedLogo ''HEAD''))"
  by (simp add: unreadableTreeWorld_def exampleRepository_def renamedLogo_def posixExtname_def
      eval_defs)

subsection \<open>C9: media types\<close>

text \<open>
  Claim C9. \<open>getMediaType\<close> maps \<^verbatim>\<open>.png\<close> to \<^verbatim>\<open>image/png\<close>, both
  \<^verbatim>\<open>.jpg\<close> and \<^verbatim>\<open>.jpeg\<close> to \<^verbatim>\<open>image/jpg\<close>, \<^verbatim>\<open>.gif\<close> to
  \<^verbatim>\<open>image/gif\<close>, and an extension to \<^verbatim>\<open>text/plain\<close> exactly when it is none of
  these four; the comparison is case-sensitive, so \<^verbatim>\<open>.PNG\<close>, like \<^verbatim>\<open>.bmp\<close>,
  maps to \<^verbatim>\<open>text/plain\<close>.
\<close>

theorem getMediaType_table:
  "getMediaType ''.png'' = ''image/png'' \<and>
   getMediaType ''.jpg'' = ''image/jpg'' \<and>
   getMediaType ''.jpeg'' = ''image/jpg'' \<and>
   getMediaType ''.gif'' = ''image/gif'' \<and>
   (getMediaType extension = ''text/plain'' \<longleftrightarrow> extension \<notin> imageFileExtensions) \<and>
   getMediaType ''.PNG'' = ''text/plain'' \<and>
   getMediaType ''.bmp'' = ''text/plain''"
  by (simp add: getMediaType_def imageFileExtensions_def)

subsection \<open>C10: the text variant keeps the hunks\<close>

text \<open>
  Claim C10. Whenever \<open>convertDiff\<close> returns the text variant, its hunks and its two index
  lookups are those of the \<^verbatim>\<open>RawDiff\<close> it was given, unchanged, and its text is the
  display text of those hunks.
\<close>

theorem convertDiff_text_passes_hunks_through:
  assumes "convertDiff w repository fc d commitish = (Inr (ITextDiff tx hs fl fh), tr)"
  shows "hs = hunks d \<and> fl = diffLineForIndex d \<and> fh = diffHunkForIndex d \<and>
         tx = diffText (hunks d)"
  using convertDiff_text [OF assms] by simp

theorem convertDiff_text_passes_hunks_through_witness:
  "convertDiff healthyWorld exampleRepository modifiedLogo (rawDiffOf False [mixedHunk]) ''HEAD'' =
     (Inr (ITextDiff
             [CHR ''a'', CHR 0x0D, CHR 0x0A, CHR ''b'', CHR 0x0D, CHR 0x0A, CHR ''c'', CHR 0x0A]
             [mixedHunk] (lineAt [mixedHunk]) (hunkAt [mixedHunk])), []) \<and>
   hunks (rawDiffOf False [mixedHunk]) = [mixedHunk] \<and>
   diffLineForIndex (rawDiffOf False [mixedHunk]) = lineAt [mixedHunk] \<and>
   diffHunkForIndex (rawDiffOf False [mixedHunk]) = hunkAt [mixedHunk]"
  using convertDiff_text_passes_hunks_through
    [of healthyWorld exampleRepository modifiedLogo "rawDiffOf False [mixedHunk]" "''HEAD''"
       "[CHR ''a'', CHR 0x0D, CHR 0x0A, CHR ''b'', CHR 0x0D, CHR 0x0A, CHR ''c'', CHR 0x0A]"
       "[mixedHunk]" "lineAt [mixedHunk]" "hunkAt [mixedHunk]" "[]"]
  by (simp add: rawDiffOf_def mixedHunk_def convertDiff_def resolve_def indexOf_def diffText_def
      formatLineEnding_def endsWith_last)

end
